theory Spec2Isabelle
  imports Complex_Main
    "HOL-Library.Char_ord"
    "HOL-Library.List_Lexorder"
    "HOL-Library.Product_Lexorder"
begin

section \<open>fctl: reporting on Prometheus variables\<close>

text \<open>
  A shallow embedding of \<^verbatim>\<open>src/faucet/fctl.py\<close>. Python values are modelled as follows.
  \<^item> A \<^verbatim>\<open>str\<close> is a \<open>string\<close>, each \<open>char\<close> read as one code point below 256.
  \<^item> A \<^verbatim>\<open>float\<close> is a \<open>pyfloat\<close>: a finite float is the rational it denotes (the two
    zeros are not told apart), and the three non-finite floats are constructors of their
    own, because \<^verbatim>\<open>int()\<close> raises on them.
  \<^item> A \<^verbatim>\<open>dict\<close> of labels is an association list in insertion order, its keys distinct.
  \<^item> An exception is a value \<open>Exn c m\<close> of its class \<open>c\<close> (a subclass counts as the class
    the source's \<^verbatim>\<open>except\<close> clauses can tell it by) and its message \<open>m\<close>, which is what
    \<^verbatim>\<open>str(err)\<close> yields. A function that can raise returns \<open>exn + 'a\<close>.
\<close>

subsection \<open>Python values\<close>

datatype exn_class =
  ConnectionError | ValueError | OverflowError | TypeError | AttributeError
  | KeyError | IndexError | OtherError

datatype exn = Exn (cls: exn_class) (msg: string)

datatype pyfloat = Finite rat | PosInf | NegInf | NaN

text \<open>\<^verbatim>\<open>int(value)\<close> on a float: truncation toward zero, and an exception on a non-finite float.\<close>

fun py_int :: "pyfloat \<Rightarrow> exn + int" where
  "py_int (Finite q) = Inr (if 0 \<le> q then \<lfloor>q\<rfloor> else \<lceil>q\<rceil>)"
| "py_int NaN = Inl (Exn ValueError ''cannot convert float NaN to integer'')"
| "py_int PosInf = Inl (Exn OverflowError ''cannot convert float infinity to integer'')"
| "py_int NegInf = Inl (Exn OverflowError ''cannot convert float infinity to integer'')"

text \<open>\<^verbatim>\<open>sep.join(xs)\<close> on a sequence of strings.\<close>

fun py_join :: "string \<Rightarrow> string list \<Rightarrow> string" where
  "py_join sep [] = []"
| "py_join sep [x] = x"
| "py_join sep (x # y # ys) = x @ sep @ py_join sep (y # ys)"

text \<open>\<^verbatim>\<open>n.to_bytes(len, byteorder='big')\<close>: the base-256 digits of \<open>n\<close>, most significant
  first, and an exception when \<open>n\<close> is negative or needs more than \<open>len\<close> bytes.\<close>

fun be_bytes :: "nat \<Rightarrow> nat \<Rightarrow> nat list" where
  "be_bytes 0 n = []"
| "be_bytes (Suc k) n = be_bytes k (n div 256) @ [n mod 256]"

definition to_bytes :: "int \<Rightarrow> nat \<Rightarrow> exn + nat list" where
  "to_bytes n len =
     (if n < 0 then Inl (Exn OverflowError ''can't convert negative int to unsigned'')
      else if 256 ^ len \<le> n then Inl (Exn OverflowError ''int too big to convert'')
      else Inr (be_bytes len (nat n)))"

text \<open>\<^verbatim>\<open>format(octet, '02x')\<close>: lowercase hexadecimal, padded with zeros on the left to
  two characters.\<close>

definition hex_digit :: "nat \<Rightarrow> char" where
  "hex_digit d = ''0123456789abcdef'' ! d"

fun hex_digits :: "nat \<Rightarrow> string" where
  "hex_digits n =
     (if n < 16 then [hex_digit n] else hex_digits (n div 16) @ [hex_digit (n mod 16)])"

declare hex_digits.simps [simp del]

definition format_02x :: "nat \<Rightarrow> string" where
  "format_02x n = (let s = hex_digits n in replicate (2 - length s) CHR ''0'' @ s)"

subsection \<open>Value decoder\<close>

text \<open>\<^verbatim>\<open>decode_value\<close> returns its argument as it is (a float), or the colon-separated
  octets (a string) for the metric \<^verbatim>\<open>learned_macs\<close>. The metric name is \<open>None\<close> when the
  caller passes Python's \<^verbatim>\<open>None\<close>.\<close>

datatype decoded = Raw pyfloat | Text string

definition decode_value :: "string option \<Rightarrow> pyfloat \<Rightarrow> exn + decoded" where
  "decode_value metric_name v =
     (if metric_name = Some ''learned_macs'' then
        (case py_int v of
           Inl e \<Rightarrow> Inl e
         | Inr n \<Rightarrow>
            (case to_bytes n 6 of
               Inl e \<Rightarrow> Inl e
             | Inr octets \<Rightarrow> Inr (Text (py_join '':'' (map format_02x octets)))))
      else Inr (Raw v))"

text \<open>\<^verbatim>\<open>str(value)\<close> on what \<^verbatim>\<open>decode_value\<close> returned. \<^verbatim>\<open>str\<close> of a string is the string;
  \<^verbatim>\<open>str\<close> of a float is Python's shortest round-trip rendering, which is taken as the
  parameter \<open>fstr\<close>.\<close>

fun py_str :: "(pyfloat \<Rightarrow> string) \<Rightarrow> decoded \<Rightarrow> string" where
  "py_str fstr (Raw v) = fstr v"
| "py_str fstr (Text s) = s"

subsection \<open>Metric families and samples\<close>

text \<open>The parser's \<^verbatim>\<open>Sample\<close> (a named tuple: name, labels, value, and a timestamp and an
  exemplar the program never reads) and \<^verbatim>\<open>Metric\<close> (a name and its samples).\<close>

type_synonym labels = "(string \<times> string) list"

record sample =
  sname :: string
  labels :: labels
  svalue :: pyfloat

record metric =
  mname :: string
  samples :: "sample list"

subsection \<open>Sample filter\<close>

text \<open>The inner loop of \<^verbatim>\<open>_get_samples_from_metrics\<close>, over the samples of one family.
  \<^verbatim>\<open>set(label_matches.items()).issubset(set(labels.items()))\<close> is an inclusion of sets of
  pairs; \<^verbatim>\<open>nonzero_only and int(value) == 0\<close> calls \<^verbatim>\<open>int\<close> only when the flag is set.\<close>

fun samples_loop ::
  "labels option \<Rightarrow> bool \<Rightarrow> sample list \<Rightarrow> sample list \<Rightarrow> exn + sample list" where
  "samples_loop label_matches nonzero_only [] result = Inr result"
| "samples_loop label_matches nonzero_only (s # ss) result =
     (if label_matches = None \<or> set (the label_matches) \<subseteq> set (labels s) then
        (if nonzero_only then
           (case py_int (svalue s) of
              Inl e \<Rightarrow> Inl e
            | Inr n \<Rightarrow>
               (if n = 0 then samples_loop label_matches nonzero_only ss result
                else samples_loop label_matches nonzero_only ss (result @ [s])))
         else samples_loop label_matches nonzero_only ss (result @ [s]))
      else samples_loop label_matches nonzero_only ss result)"

text \<open>The outer loop, over the families.\<close>

fun metrics_loop ::
  "string option \<Rightarrow> labels option \<Rightarrow> bool \<Rightarrow> metric list \<Rightarrow> sample list
     \<Rightarrow> exn + sample list" where
  "metrics_loop metric_name label_matches nonzero_only [] result = Inr result"
| "metrics_loop metric_name label_matches nonzero_only (m # ms) result =
     (if metric_name = None \<or> Some (mname m) = metric_name then
        (case samples_loop label_matches nonzero_only (samples m) result of
           Inl e \<Rightarrow> Inl e
         | Inr result' \<Rightarrow> metrics_loop metric_name label_matches nonzero_only ms result')
      else metrics_loop metric_name label_matches nonzero_only ms result)"

definition get_samples_from_metrics ::
  "metric list \<Rightarrow> string option \<Rightarrow> labels option \<Rightarrow> bool \<Rightarrow> exn + sample list" where
  "get_samples_from_metrics metrics metric_name label_matches nonzero_only =
     metrics_loop metric_name label_matches nonzero_only metrics []"

text \<open>The samples the filter looks at: those of the families whose name matches, in order.\<close>

definition name_ok :: "string option \<Rightarrow> metric \<Rightarrow> bool" where
  "name_ok metric_name m = (metric_name = None \<or> Some (mname m) = metric_name)"

definition candidates :: "metric list \<Rightarrow> string option \<Rightarrow> sample list" where
  "candidates metrics metric_name = concat (map samples (filter (name_ok metric_name) metrics))"

text \<open>The two tests of the loop body, as predicates of a sample: the label test, and the
  test on the value, which is made only when \<^verbatim>\<open>nonzero_only\<close> is set and which lets a sample
  through unless \<^verbatim>\<open>int(value)\<close> is 0.\<close>

definition label_ok :: "labels option \<Rightarrow> sample \<Rightarrow> bool" where
  "label_ok label_matches s =
     (label_matches = None \<or> set (the label_matches) \<subseteq> set (labels s))"

definition value_ok :: "bool \<Rightarrow> sample \<Rightarrow> bool" where
  "value_ok nonzero_only s = (nonzero_only \<longrightarrow> py_int (svalue s) \<noteq> Inr 0)"

text \<open>The specification's label match, in its words: every (key, value) pair of the required
  mapping is present in the sample's label mapping; an absent mapping is no constraint.\<close>

definition matches :: "labels \<Rightarrow> labels option \<Rightarrow> bool" where
  "matches S L =
     (case L of None \<Rightarrow> True | Some l \<Rightarrow> list_all (\<lambda>(k, v). map_of S k = Some v) l)"

text \<open>The specification's rendering of a hardware address: octet \<open>i\<close> of the 6-byte
  big-endian representation of \<open>n\<close>, as two lowercase hexadecimal digits, and the six octets,
  most significant first, joined by colons.\<close>

definition spec_octet :: "nat \<Rightarrow> nat \<Rightarrow> string" where
  "spec_octet n i =
     [hex_digit (n div 256 ^ i mod 256 div 16), hex_digit (n div 256 ^ i mod 256 mod 16)]"

definition spec_mac :: "nat \<Rightarrow> string" where
  "spec_mac n =
     spec_octet n 5 @ '':'' @ spec_octet n 4 @ '':'' @ spec_octet n 3 @ '':'' @
     spec_octet n 2 @ '':'' @ spec_octet n 1 @ '':'' @ spec_octet n 0"

subsection \<open>Python's renderings\<close>

text \<open>\<^verbatim>\<open>repr\<close> of a string: single quotes, unless the string holds a single quote and no
  double quote; the quote and the backslash escaped; tab, newline and carriage return by
  letter, any other unprintable character as \<^verbatim>\<open>\xhh\<close>.\<close>

definition py_printable :: "char \<Rightarrow> bool" where
  "py_printable c =
     (let n = (of_char c :: nat) in (32 \<le> n \<and> n < 127) \<or> (161 \<le> n \<and> n \<noteq> 173))"

definition repr_char :: "char \<Rightarrow> char \<Rightarrow> string" where
  "repr_char q c =
     (if c = q \<or> c = CHR 0x5C then [CHR 0x5C, c]
      else if c = CHR 0x09 then [CHR 0x5C, CHR ''t'']
      else if c = CHR 0x0A then [CHR 0x5C, CHR ''n'']
      else if c = CHR 0x0D then [CHR 0x5C, CHR ''r'']
      else if py_printable c then [c]
      else [CHR 0x5C, CHR ''x''] @ format_02x (of_char c))"

definition py_repr :: "string \<Rightarrow> string" where
  "py_repr s =
     (let q = (if CHR 0x27 \<in> set s \<and> CHR 0x22 \<notin> set s then CHR 0x22 else CHR 0x27)
      in [q] @ concat (map (repr_char q) s) @ [q])"

text \<open>\<^verbatim>\<open>str\<close> of a list of pairs of strings, and of a list of strings.\<close>

definition str_pairs :: "(string \<times> string) list \<Rightarrow> string" where
  "str_pairs ps =
     ''['' @ py_join '', '' (map (\<lambda>(k, v). ''('' @ py_repr k @ '', '' @ py_repr v @ '')'') ps)
       @ '']''"

definition str_list :: "string list \<Rightarrow> string" where
  "str_list xs = ''['' @ py_join '', '' (map py_repr xs) @ '']''"

subsection \<open>Report formatter\<close>

text \<open>The variable \<^verbatim>\<open>report_output\<close> is a list of lines at first and is rebound to a string
  by \<^verbatim>\<open>report_output = '\n'.join(report_output)\<close>, the last statement of the body of the
  loop over the metric names.\<close>

datatype pyobj = PList "string list" | PStr string

text \<open>\<^verbatim>\<open>'\n'.join(report_output)\<close>: an iteration over a string yields its characters.\<close>

fun join_lines :: "pyobj \<Rightarrow> string" where
  "join_lines (PList ls) = py_join [CHR 0x0A] ls"
| "join_lines (PStr s) = py_join [CHR 0x0A] (map (\<lambda>c. [c]) s)"

text \<open>The loop over the samples of one metric name. In
  \<^verbatim>\<open>report_output.append(delim.join((metric_name, ...)))\<close> the attribute \<^verbatim>\<open>append\<close> is looked
  up first (a string has none), then \<^verbatim>\<open>join\<close> runs (it refuses \<^verbatim>\<open>None\<close>).\<close>

fun report_samples ::
  "(pyfloat \<Rightarrow> string) \<Rightarrow> string option \<Rightarrow> string list option \<Rightarrow> string \<Rightarrow> sample list
     \<Rightarrow> pyobj \<Rightarrow> exn + pyobj" where
  "report_samples fstr metric_name display_labels delim [] report_output = Inr report_output"
| "report_samples fstr metric_name display_labels delim (s # ss) report_output =
     (let sorted_labels =
            filter (\<lambda>(key, val). display_labels = None \<or> the display_labels = []
                      \<or> key \<in> set (the display_labels))
              (sort (labels s))
      in case decode_value metric_name (svalue s) of
           Inl e \<Rightarrow> Inl e
         | Inr v \<Rightarrow>
            (case report_output of
               PStr _ \<Rightarrow> Inl (Exn AttributeError
                      (CHR 0x27 # ''str' object has no attribute 'append'' @ [CHR 0x27]))
             | PList ls \<Rightarrow>
                (case metric_name of
                   None \<Rightarrow>
                     Inl (Exn TypeError
                       ''sequence item 0: expected str instance, NoneType found'')
                 | Some n \<Rightarrow>
                     report_samples fstr metric_name display_labels delim ss
                       (PList (ls @ [py_join delim [n, str_pairs sorted_labels, py_str fstr v]])))))"

fun report_loop ::
  "(pyfloat \<Rightarrow> string) \<Rightarrow> metric list \<Rightarrow> string list option \<Rightarrow> bool \<Rightarrow> string
     \<Rightarrow> labels option \<Rightarrow> string option list \<Rightarrow> pyobj \<Rightarrow> exn + pyobj" where
  "report_loop fstr metrics display_labels nonzero_only delim label_matches [] report_output =
     Inr report_output"
| "report_loop fstr metrics display_labels nonzero_only delim label_matches
     (metric_name # names) report_output =
     (case get_samples_from_metrics metrics metric_name label_matches nonzero_only of
        Inl e \<Rightarrow> Inl e
      | Inr ss \<Rightarrow>
         (case report_samples fstr metric_name display_labels delim ss report_output of
            Inl e \<Rightarrow> Inl e
          | Inr out \<Rightarrow>
             report_loop fstr metrics display_labels nonzero_only delim label_matches names
               (PStr (join_lines out))))"

definition report_label_match_metrics ::
  "(pyfloat \<Rightarrow> string) \<Rightarrow> string list option \<Rightarrow> metric list \<Rightarrow> string list option \<Rightarrow> bool
     \<Rightarrow> string \<Rightarrow> labels option \<Rightarrow> exn + pyobj" where
  "report_label_match_metrics fstr report_metrics metrics display_labels nonzero_only delim
     label_matches =
     report_loop fstr metrics display_labels nonzero_only delim label_matches
       (case report_metrics of None \<Rightarrow> [None] | Some names \<Rightarrow> map Some names)
       (PList [])"

subsection \<open>Endpoint fetcher\<close>

text \<open>The network and the exposition parser are outside the program. The network is a
  function \<open>net\<close>: the reply to a request for an endpoint, given how many requests were made
  before it. A reply is an exception raised by \<^verbatim>\<open>requests.get\<close> or \<^verbatim>\<open>urlopen\<close>, or a response
  with its status code and its body; the body either decodes as strict UTF-8 to a text or
  makes \<^verbatim>\<open>decode\<close> raise a \<^verbatim>\<open>UnicodeDecodeError\<close> (a \<^verbatim>\<open>ValueError\<close>) with a message. The parser
  is a function \<open>parse\<close> from the content it is given (\<open>None\<close> for Python's \<^verbatim>\<open>None\<close>) to
  the families or the exception it raises.

  What the program does to the outside is kept in a record: the endpoints requested, the
  calls of \<^verbatim>\<open>time.sleep(1)\<close>, the strings written to each stream, and the contents handed
  to the parser, each in order.\<close>

datatype body = Decodes string | Undecodable string

datatype reply = Raised exn | Response nat body

datatype stream = Stdout | Stderr

record world =
  fetched :: "string list"
  sleeps :: nat
  written :: "(stream \<times> string) list"
  parsed :: "string option list"

type_synonym net = "string \<Rightarrow> nat \<Rightarrow> reply"

type_synonym parser = "string option \<Rightarrow> exn + metric list"

definition py_startswith :: "string \<Rightarrow> string \<Rightarrow> bool" where
  "py_startswith s p = (take (length p) s = p)"

fun decode_utf8 :: "body \<Rightarrow> exn + string" where
  "decode_utf8 (Decodes text) = Inr text"
| "decode_utf8 (Undecodable m) = Inl (Exn ValueError m)"

text \<open>The body of the \<^verbatim>\<open>try\<close>: \<open>Inr (Some text)\<close> when it reaches a \<^verbatim>\<open>break\<close> with the
  content set, \<open>Inr None\<close> when it ends without one (an HTTP status other than 200), and
  \<open>Inl e\<close> when it raises.\<close>

definition try_fetch :: "string \<Rightarrow> reply \<Rightarrow> exn + string option" where
  "try_fetch endpoint r =
     (if py_startswith endpoint ''http'' then
        (case r of
           Raised e \<Rightarrow> Inl e
         | Response status_code content \<Rightarrow>
            (if status_code = 200 then
               (case decode_utf8 content of Inl e \<Rightarrow> Inl e | Inr text \<Rightarrow> Inr (Some text))
             else Inr None))
      else
        (case r of
           Raised e \<Rightarrow> Inl e
         | Response status_code content \<Rightarrow>
            (case decode_utf8 content of Inl e \<Rightarrow> Inl e | Inr text \<Rightarrow> Inr (Some text))))"

text \<open>\<^verbatim>\<open>except (requests.exceptions.ConnectionError, ValueError)\<close>.\<close>

definition caught :: "exn \<Rightarrow> bool" where
  "caught e = (cls e = ConnectionError \<or> cls e = ValueError)"

text \<open>\<^verbatim>\<open>for _ in range(retries)\<close>, with the variables \<^verbatim>\<open>content\<close> and \<^verbatim>\<open>err\<close>. An exception
  that the \<^verbatim>\<open>except\<close> clause does not catch leaves the function.\<close>

fun attempts ::
  "net \<Rightarrow> string \<Rightarrow> nat \<Rightarrow> string option \<Rightarrow> exn option \<Rightarrow> world
     \<Rightarrow> (exn + string option \<times> exn option) \<times> world" where
  "attempts net endpoint 0 content err w = (Inr (content, err), w)"
| "attempts net endpoint (Suc k) content err w =
     (let w1 = w\<lparr>fetched := fetched w @ [endpoint]\<rparr> in
      case try_fetch endpoint (net endpoint (length (fetched w))) of
        Inr (Some text) \<Rightarrow> (Inr (Some text, err), w1)
      | Inr None \<Rightarrow> attempts net endpoint k content err w1
      | Inl e \<Rightarrow>
         (if caught e then
            attempts net endpoint k content (Some e) (w1\<lparr>sleeps := Suc (sleeps w1)\<rparr>)
          else (Inl e, w1)))"

text \<open>\<^verbatim>\<open>for endpoint in endpoints\<close>, with the variable \<^verbatim>\<open>metrics\<close>. The result \<open>Inr None\<close> is
  \<^verbatim>\<open>return None\<close>.\<close>

fun scrape_loop ::
  "net \<Rightarrow> parser \<Rightarrow> nat \<Rightarrow> stream \<Rightarrow> string list \<Rightarrow> metric list \<Rightarrow> world
     \<Rightarrow> (exn + metric list option) \<times> world" where
  "scrape_loop net parse retries err_output_file [] metrics w = (Inr (Some metrics), w)"
| "scrape_loop net parse retries err_output_file (endpoint # rest) metrics w =
     (case attempts net endpoint retries None None w of
        (Inl e, w1) \<Rightarrow> (Inl e, w1)
      | (Inr (content, Some err), w1) \<Rightarrow>
          (Inr None, w1\<lparr>written := written w1 @ [(err_output_file, msg err)]\<rparr>)
      | (Inr (content, None), w1) \<Rightarrow>
          (let w2 = w1\<lparr>parsed := parsed w1 @ [content]\<rparr> in
           case parse content of
             Inl e \<Rightarrow>
               (if cls e = ValueError then
                  (Inr None, w2\<lparr>written := written w2 @ [(err_output_file, msg e)]\<rparr>)
                else (Inl e, w2))
           | Inr endpoint_metrics \<Rightarrow>
               scrape_loop net parse retries err_output_file rest
                 (metrics @ endpoint_metrics) w2))"

text \<open>\<^verbatim>\<open>range(retries)\<close> is empty for a count below 1. The source's defaults are
  \<^verbatim>\<open>retries=3\<close> and \<^verbatim>\<open>err_output_file=sys.stdout\<close>.\<close>

definition scrape_prometheus ::
  "net \<Rightarrow> parser \<Rightarrow> string list \<Rightarrow> int \<Rightarrow> stream \<Rightarrow> world
     \<Rightarrow> (exn + metric list option) \<times> world" where
  "scrape_prometheus net parse endpoints retries err_output_file w =
     scrape_loop net parse (nat retries) err_output_file endpoints [] w"

definition default_retries :: int where
  "default_retries = 3"

definition default_err_output_file :: stream where
  "default_err_output_file = Stdout"

text \<open>An attempt fails at the transport level when its \<^verbatim>\<open>try\<close> body raises an exception that
  the \<^verbatim>\<open>except\<close> clause catches; \<open>transport_failure\<close> gives that exception. An attempt gets
  a refusal when the endpoint is an HTTP one and the response has a status other than 200.\<close>

definition transport_failure :: "string \<Rightarrow> reply \<Rightarrow> exn option" where
  "transport_failure endpoint r =
     (case try_fetch endpoint r of
        Inl e \<Rightarrow> (if caught e then Some e else None)
      | Inr _ \<Rightarrow> None)"

definition refused :: "reply \<Rightarrow> bool" where
  "refused r = (case r of Raised e \<Rightarrow> False | Response status_code content \<Rightarrow> status_code \<noteq> 200)"

subsection \<open>Command line\<close>

text \<open>\<^verbatim>\<open>argparse\<close> is outside the program: what \<^verbatim>\<open>arg_parser.parse_args(sys_args)\<close> did is an
  input of the model, either the namespace it returned, or the exit it made (status 2 on
  a command line it rejects, after writing its own message). A function that can also
  leave the process returns an \<open>outcome\<close>.\<close>

datatype 'a outcome = Returns 'a | Raises exn | Exits int

record namespace =
  args_nonzero :: bool
  args_endpoints :: "string option"
  args_metrics :: "string option"
  args_labels :: "string option"
  args_display_labels :: "string option"

text \<open>\<^verbatim>\<open>s.split(sep)\<close> for a separator of one character.\<close>

fun py_split :: "char \<Rightarrow> string \<Rightarrow> string list" where
  "py_split sep [] = [[]]"
| "py_split sep (c # cs) =
     (if c = sep then [] # py_split sep cs
      else (case py_split sep cs of [] \<Rightarrow> [[c]] | x # xs \<Rightarrow> (c # x) # xs))"

text \<open>\<^verbatim>\<open>d[k] = v\<close> on a dictionary: a key already there keeps its place.\<close>

fun dict_set :: "labels \<Rightarrow> string \<Rightarrow> string \<Rightarrow> labels" where
  "dict_set [] k v = [(k, v)]"
| "dict_set (p # ps) k v = (if fst p = k then (k, v) # ps else p # dict_set ps k v)"

text \<open>The loop over the items of \<^verbatim>\<open>--labels\<close>: \<^verbatim>\<open>label, value = label_value.split(':')\<close>
  raises a \<^verbatim>\<open>ValueError\<close> unless the item splits in exactly two.\<close>

fun labels_loop :: "string list \<Rightarrow> labels \<Rightarrow> exn + labels" where
  "labels_loop [] label_matches = Inr label_matches"
| "labels_loop (label_value # rest) label_matches =
     (case py_split CHR '':'' label_value of
        [label, val] \<Rightarrow> labels_loop rest (dict_set label_matches label val)
      | [_] \<Rightarrow> Inl (Exn ValueError ''not enough values to unpack (expected 2, got 1)'')
      | _ \<Rightarrow> Inl (Exn ValueError ''too many values to unpack (expected 2)''))"

text \<open>A string option is true in a condition when it is a non-empty string.\<close>

definition truthy :: "string option \<Rightarrow> bool" where
  "truthy x = (x \<noteq> None \<and> x \<noteq> Some [])"

type_synonym query = "string list \<times> string list \<times> labels option \<times> bool \<times> string list option"

text \<open>The body of the \<^verbatim>\<open>try\<close> after the call of \<^verbatim>\<open>argparse\<close>.\<close>

definition parse_args_body :: "namespace \<Rightarrow> exn + query" where
  "parse_args_body args =
     (let nonzero_only = args_nonzero args;
          endpoints =
            (if truthy (args_endpoints args) then py_split CHR '','' (the (args_endpoints args))
             else []);
          report_metrics =
            (if truthy (args_metrics args) then py_split CHR '','' (the (args_metrics args))
             else [])
      in case (if truthy (args_labels args)
               then map_sum id Some (labels_loop (py_split CHR '','' (the (args_labels args))) [])
               else Inr None) of
           Inl e \<Rightarrow> Inl e
         | Inr label_matches \<Rightarrow>
            (let display_labels =
                   (if truthy (args_display_labels args)
                    then Some (py_split CHR '','' (the (args_display_labels args)))
                    else None)
             in Inr (endpoints, report_metrics, label_matches, nonzero_only, display_labels)))"

text \<open>\<^verbatim>\<open>except (KeyError, IndexError)\<close>: \<^verbatim>\<open>print_usage()\<close> with no file writes the usage text,
  here the parameter \<open>usage\<close>, to \<^verbatim>\<open>sys.stdout\<close>; then \<^verbatim>\<open>sys.exit(-1)\<close>.\<close>

definition usage_exit :: "exn \<Rightarrow> bool" where
  "usage_exit e = (cls e = KeyError \<or> cls e = IndexError)"

definition parse_args ::
  "string \<Rightarrow> namespace outcome \<Rightarrow> query outcome \<times> (stream \<times> string) list" where
  "parse_args usage argparse_result =
     (case argparse_result of
        Exits n \<Rightarrow> (Exits n, [])
      | Raises e \<Rightarrow> (if usage_exit e then (Exits (- 1), [(Stdout, usage)]) else (Raises e, []))
      | Returns args \<Rightarrow>
         (case parse_args_body args of
            Inl e \<Rightarrow>
              (if usage_exit e then (Exits (- 1), [(Stdout, usage)]) else (Raises e, []))
          | Inr q \<Rightarrow> (Returns q, [])))"

subsection \<open>Driver\<close>

text \<open>\<^verbatim>\<open>print(report)\<close> writes \<^verbatim>\<open>str(report)\<close> and a newline to \<^verbatim>\<open>sys.stdout\<close>.\<close>

fun print_text :: "pyobj \<Rightarrow> string" where
  "print_text (PStr s) = s @ [CHR 0x0A]"
| "print_text (PList ls) = str_list ls @ [CHR 0x0A]"

definition start :: world where
  "start = \<lparr>fetched = [], sleeps = 0, written = [], parsed = []\<rparr>"

text \<open>\<^verbatim>\<open>main\<close>. The outcome \<open>Raises e\<close> is an exception that leaves \<^verbatim>\<open>main\<close>: the interpreter
  then writes a traceback to standard error and the process ends with status 1. The call
  \<^verbatim>\<open>scrape_prometheus(endpoints)\<close> takes the defaults.\<close>

definition main ::
  "string \<Rightarrow> namespace outcome \<Rightarrow> net \<Rightarrow> parser \<Rightarrow> (pyfloat \<Rightarrow> string) \<Rightarrow> unit outcome \<times> world"
  where
  "main usage argparse_result net parse fstr =
     (case parse_args usage argparse_result of
        (Exits n, out) \<Rightarrow> (Exits n, start\<lparr>written := out\<rparr>)
      | (Raises e, out) \<Rightarrow> (Raises e, start\<lparr>written := out\<rparr>)
      | (Returns (endpoints, report_metrics, label_matches, nonzero_only, display_labels), out) \<Rightarrow>
         (case scrape_prometheus net parse endpoints default_retries default_err_output_file
                 (start\<lparr>written := out\<rparr>) of
            (Inl e, w) \<Rightarrow> (Raises e, w)
          | (Inr None, w) \<Rightarrow> (Exits 1, w)
          | (Inr (Some metrics), w) \<Rightarrow>
             (case report_label_match_metrics fstr (Some report_metrics) metrics display_labels
                     nonzero_only [CHR 0x09] label_matches of
                Inl e \<Rightarrow> (Raises e, w)
              | Inr report \<Rightarrow>
                 (Returns (), w\<lparr>written := written w @ [(Stdout, print_text report)]\<rparr>))))"

subsection \<open>Example data\<close>

text \<open>The family of the specification's end-to-end example, \<^verbatim>\<open>dp_status{dp_id="1"} 1\<close> and
  \<^verbatim>\<open>dp_status{dp_id="2"} 0\<close>, here with a second label, and a family \<^verbatim>\<open>learned_macs\<close> with
  one address.\<close>

definition dp1 :: sample where
  "dp1 = \<lparr>sname = ''dp_status'', labels = [(''port'', ''3''), (''dp_id'', ''1'')],
          svalue = Finite 1\<rparr>"

definition dp2 :: sample where
  "dp2 = \<lparr>sname = ''dp_status'', labels = [(''port'', ''3''), (''dp_id'', ''2'')],
          svalue = Finite 0\<rparr>"

definition mac1 :: sample where
  "mac1 = \<lparr>sname = ''learned_macs'', labels = [(''dp_id'', ''1'')], svalue = Finite 255\<rparr>"

definition example_metrics :: "metric list" where
  "example_metrics =
     [\<lparr>mname = ''dp_status'', samples = [dp1, dp2]\<rparr>,
      \<lparr>mname = ''learned_macs'', samples = [mac1]\<rparr>]"

text \<open>Networks and a parser for the examples. The parser gives no family for an absent
  content, as a parser that reads its argument through a text buffer does.\<close>

definition flaky_net :: net where
  "flaky_net endpoint i =
     (if i = 0 then Raised (Exn ConnectionError ''Connection refused'')
      else Response 200 (Decodes ''dp_status 1''))"

definition down_net :: net where
  "down_net endpoint i = Raised (Exn ConnectionError ''Connection refused'')"

definition up_net :: net where
  "up_net endpoint i = Response 200 (Decodes ''dp_status 1'')"


definition busy_net :: net where
  "busy_net endpoint i = Response 503 (Decodes ''Service Unavailable'')"

definition example_parser :: parser where
  "example_parser content =
     (case content of
        None \<Rightarrow> Inr []
      | Some text \<Rightarrow>
         (if text = ''dp_status 1'' then Inr example_metrics
          else Inl (Exn ValueError ''Invalid line'')))"

text \<open>\<^verbatim>\<open>str\<close> of a float, for the floats of the examples: a whole number below \<open>10^16\<close> in
  magnitude is written with its decimal digits and \<^verbatim>\<open>.0\<close>. What Python writes for the
  other finite floats is not modelled.\<close>

fun dec_digits :: "nat \<Rightarrow> string" where
  "dec_digits n =
     (if n < 10 then [''0123456789'' ! n]
      else dec_digits (n div 10) @ [''0123456789'' ! (n mod 10)])"

declare dec_digits.simps [simp del]

definition whole_str :: "pyfloat \<Rightarrow> string" where
  "whole_str v =
     (case v of
        NaN \<Rightarrow> ''nan''
      | PosInf \<Rightarrow> ''inf''
      | NegInf \<Rightarrow> ''-inf''
      | Finite q \<Rightarrow>
         (if of_int \<lfloor>q\<rfloor> = q \<and> \<bar>q\<bar> < 10 ^ 16
          then (if q < 0 then ''-'' else []) @ dec_digits (nat \<bar>\<lfloor>q\<rfloor>\<bar>) @ ''.0''
          else undefined))"

text \<open>Namespaces for the examples: \<^verbatim>\<open>-e http://a\<close> alone, with \<^verbatim>\<open>-m dp_status\<close>, and with
  \<^verbatim>\<open>-l dp_id\<close>, a label item without its colon.\<close>

definition args_plain :: namespace where
  "args_plain = \<lparr>args_nonzero = False, args_endpoints = Some ''http://a'', args_metrics = None,
                 args_labels = None, args_display_labels = None\<rparr>"

definition args_dp_status :: namespace where
  "args_dp_status = args_plain\<lparr>args_metrics := Some ''dp_status''\<rparr>"

definition args_bad_label :: namespace where
  "args_bad_label = args_plain\<lparr>args_labels := Some ''dp_id''\<rparr>"

section \<open>Properties\<close>

subsection \<open>Value decoder\<close>


lemma be_bytes_digits: "be_bytes k n = map (\<lambda>i. n div 256 ^ i mod 256) (rev [0..<k])"
proof (induction k arbitrary: n)
  case 0
  show ?case by simp
next
  case (Suc k)
  have "[0..<Suc k] = 0 # map Suc [0..<k]"
    by (simp add: upt_conv_Cons map_Suc_upt del: upt_Suc)
  then show ?case
    by (simp add: Suc.IH rev_map div_mult2_eq del: upt_Suc)
qed

lemma rev_upt_6: "rev [0..<6] = [5, 4, 3, 2, 1, 0::nat]"
proof -
  have "[0..<6] = [0, 1, 2, 3, 4, 5::nat]" by (simp add: upt_rec)
  then show ?thesis by simp
qed

lemma format_02x_octet:
  assumes b: "b < 256"
  shows "format_02x b = [hex_digit (b div 16), hex_digit (b mod 16)]"
proof (cases "b < 16")
  case True
  have "hex_digit 0 = CHR ''0''" by (simp add: hex_digit_def)
  with True show ?thesis by (simp add: format_02x_def hex_digits.simps [of b])
next
  case False
  with b have "b div 16 < 16" by simp
  with False show ?thesis
    by (simp add: format_02x_def hex_digits.simps [of b] hex_digits.simps [of "b div 16"])
qed

lemma mac_of_nat: "py_join '':'' (map format_02x (be_bytes 6 n)) = spec_mac n"
  by (simp add: be_bytes_digits rev_upt_6 format_02x_octet spec_mac_def spec_octet_def)

lemma floor_range:
  fixes q :: rat
  assumes "0 \<le> q" "q < 2 ^ 48"
  shows "0 \<le> \<lfloor>q\<rfloor>" "\<lfloor>q\<rfloor> < 256 ^ 6"
proof -
  show "0 \<le> \<lfloor>q\<rfloor>" using assms by simp
  have "(2::rat) ^ 48 = of_int (256 ^ 6)" by simp
  with assms have "q < of_int (256 ^ 6)" by (simp only:)
  then show "\<lfloor>q\<rfloor> < 256 ^ 6" by (simp only: floor_less_iff)
qed

lemma decode_mac:
  fixes q :: rat
  assumes "0 \<le> q" "q < 2 ^ 48"
  shows "decode_value (Some ''learned_macs'') (Finite q) = Inr (Text (spec_mac (nat \<lfloor>q\<rfloor>)))"
proof -
  have "py_int (Finite q) = Inr \<lfloor>q\<rfloor>" using assms by simp
  moreover have "to_bytes \<lfloor>q\<rfloor> 6 = Inr (be_bytes 6 (nat \<lfloor>q\<rfloor>))"
  proof -
    have a: "\<not> \<lfloor>q\<rfloor> < 0" and b: "\<not> 256 ^ 6 \<le> \<lfloor>q\<rfloor>"
      using floor_range [OF assms] by (simp_all only: not_less not_le)
    show ?thesis by (simp only: to_bytes_def a b if_False)
  qed
  ultimately show ?thesis
    by (simp only: decode_value_def mac_of_nat sum.case refl if_True)
qed

text \<open>
  Claim C6. For every value \<open>v\<close> of the metric \<^verbatim>\<open>learned_macs\<close> with \<open>0 \<le> v < 2^48\<close>,
  \<^verbatim>\<open>decode_value\<close> renders the integer part of \<open>v\<close> as the six octets of its 6-byte big-endian
  representation, each as two lowercase hexadecimal digits, joined by colons; the value
  \<^verbatim>\<open>0xB827EB608918\<close> gives \<^verbatim>\<open>b8:27:eb:60:89:18\<close>. For every other metric name (and for no
  name) it returns the value unchanged, and the string the report shows for it is the
  string form of the value.
\<close>

theorem decode_value_learned_macs:
  fixes q :: rat
  shows "(0 \<le> q \<and> q < 2 ^ 48 \<longrightarrow>
            decode_value (Some ''learned_macs'') (Finite q) =
              Inr (Text (spec_mac (nat \<lfloor>q\<rfloor>)))) \<and>
         decode_value (Some ''learned_macs'') (Finite 0xB827EB608918) =
           Inr (Text ''b8:27:eb:60:89:18'') \<and>
         (metric_name \<noteq> Some ''learned_macs'' \<longrightarrow>
            decode_value metric_name v = Inr (Raw v) \<and> py_str fstr (Raw v) = fstr v)"
proof (intro conjI impI)
  show "decode_value (Some ''learned_macs'') (Finite q) = Inr (Text (spec_mac (nat \<lfloor>q\<rfloor>)))"
    if "0 \<le> q \<and> q < 2 ^ 48"
    using that by (intro decode_mac) simp_all
  have "decode_value (Some ''learned_macs'') (Finite 0xB827EB608918) =
          Inr (Text (spec_mac (nat \<lfloor>0xB827EB608918 :: rat\<rfloor>)))"
    by (rule decode_mac) simp_all
  then show "decode_value (Some ''learned_macs'') (Finite 0xB827EB608918) =
           Inr (Text ''b8:27:eb:60:89:18'')"
    by (simp add: spec_mac_def spec_octet_def hex_digit_def)
  show "decode_value metric_name v = Inr (Raw v)" if "metric_name \<noteq> Some ''learned_macs''"
    using that by (simp add: decode_value_def)
  show "py_str fstr (Raw v) = fstr v" by simp
qed

theorem decode_value_learned_macs_witness:
  "(0::rat) \<le> 255 \<and> (255::rat) < 2 ^ 48 \<and>
   decode_value (Some ''learned_macs'') (Finite 255) = Inr (Text ''00:00:00:00:00:ff'') \<and>
   Some ''dp_status'' \<noteq> Some ''learned_macs'' \<and>
   decode_value (Some ''dp_status'') (Finite 1) = Inr (Raw (Finite 1))"
  using decode_value_learned_macs [of 255 "Some ''dp_status''" "Finite 1"]
  by (simp add: spec_mac_def spec_octet_def hex_digit_def)

subsection \<open>Sample filter: the loops as a filter\<close>

lemma samples_loop_Cons:
  "samples_loop L nz (s # ss) acc =
     (if label_ok L s then
        (if nz then
           (case py_int (svalue s) of
              Inl e \<Rightarrow> Inl e
            | Inr n \<Rightarrow>
               (if n = 0 then samples_loop L nz ss acc else samples_loop L nz ss (acc @ [s])))
         else samples_loop L nz ss (acc @ [s]))
      else samples_loop L nz ss acc)"
  by (simp add: label_ok_def)

lemma samples_loop_Inr:
  "samples_loop L nz ss acc = Inr res \<Longrightarrow>
     res = acc @ filter (\<lambda>s. label_ok L s \<and> value_ok nz s) ss"
proof (induction ss arbitrary: acc)
  case Nil
  then show ?case by simp
next
  case (Cons s ss)
  note step = Cons.prems [unfolded samples_loop_Cons]
  show ?case
  proof (cases "label_ok L s")
    case False
    with step have "samples_loop L nz ss acc = Inr res" by simp
    from Cons.IH [OF this] False show ?thesis by simp
  next
    case True
    show ?thesis
    proof (cases nz)
      case False
      with True step have "samples_loop L nz ss (acc @ [s]) = Inr res" by simp
      from Cons.IH [OF this] True False show ?thesis by (simp add: value_ok_def)
    next
      case nz: True
      show ?thesis
      proof (cases "py_int (svalue s)")
        case (Inl e)
        with True nz step show ?thesis by simp
      next
        case (Inr n)
        show ?thesis
        proof (cases "n = 0")
          case True
          with \<open>label_ok L s\<close> nz Inr step have "samples_loop L nz ss acc = Inr res" by simp
          from Cons.IH [OF this] True Inr nz show ?thesis by (simp add: value_ok_def)
        next
          case False
          with \<open>label_ok L s\<close> nz Inr step have "samples_loop L nz ss (acc @ [s]) = Inr res"
            by simp
          from Cons.IH [OF this] False Inr nz \<open>label_ok L s\<close> show ?thesis
            by (simp add: value_ok_def)
        qed
      qed
    qed
  qed
qed

lemma samples_loop_total:
  assumes "nz \<Longrightarrow> \<forall>s\<in>set ss. \<exists>q. svalue s = Finite q"
  shows "\<exists>res. samples_loop L nz ss acc = Inr res"
  using assms
proof (induction ss arbitrary: acc)
  case Nil
  show ?case by simp
next
  case (Cons s ss)
  have ih: "\<exists>res. samples_loop L nz ss a = Inr res" for a
    using Cons.IH Cons.prems by simp
  show ?case
  proof (cases nz)
    case False
    with ih show ?thesis by (simp add: samples_loop_Cons del: samples_loop.simps)
  next
    case True
    with Cons.prems obtain q where "svalue s = Finite q" by auto
    with True ih show ?thesis by (simp add: samples_loop_Cons del: samples_loop.simps)
  qed
qed

lemma samples_loop_eq:
  assumes "nz \<Longrightarrow> \<forall>s\<in>set ss. \<exists>q. svalue s = Finite q"
  shows "samples_loop L nz ss acc = Inr (acc @ filter (\<lambda>s. label_ok L s \<and> value_ok nz s) ss)"
proof -
  from samples_loop_total [OF assms] obtain res where r: "samples_loop L nz ss acc = Inr res"
    by blast
  from samples_loop_Inr [OF r] r show ?thesis by simp
qed

lemma metrics_loop_Cons:
  "metrics_loop name L nz (m # ms) acc =
     (if name_ok name m then
        (case samples_loop L nz (samples m) acc of
           Inl e \<Rightarrow> Inl e
         | Inr r \<Rightarrow> metrics_loop name L nz ms r)
      else metrics_loop name L nz ms acc)"
  by (simp add: name_ok_def)

lemma candidates_Cons:
  "candidates (m # ms) name =
     (if name_ok name m then samples m @ candidates ms name else candidates ms name)"
  by (simp add: candidates_def)

lemma metrics_loop_Inr:
  "metrics_loop name L nz ms acc = Inr res \<Longrightarrow>
     res = acc @ filter (\<lambda>s. label_ok L s \<and> value_ok nz s) (candidates ms name)"
proof (induction ms arbitrary: acc)
  case Nil
  then show ?case by (simp add: candidates_def)
next
  case (Cons m ms)
  note step = Cons.prems [unfolded metrics_loop_Cons]
  show ?case
  proof (cases "name_ok name m")
    case False
    with step have "metrics_loop name L nz ms acc = Inr res" by simp
    from Cons.IH [OF this] False show ?thesis by (simp add: candidates_Cons)
  next
    case True
    with step obtain r1 where r1: "samples_loop L nz (samples m) acc = Inr r1"
      and r2: "metrics_loop name L nz ms r1 = Inr res"
      by (cases "samples_loop L nz (samples m) acc") simp_all
    from samples_loop_Inr [OF r1] Cons.IH [OF r2] True show ?thesis
      by (simp add: candidates_Cons)
  qed
qed

lemma metrics_loop_total:
  assumes "nz \<Longrightarrow> \<forall>s\<in>set (candidates ms name). \<exists>q. svalue s = Finite q"
  shows "\<exists>res. metrics_loop name L nz ms acc = Inr res"
  using assms
proof (induction ms arbitrary: acc)
  case Nil
  show ?case by simp
next
  case (Cons m ms)
  show ?case
  proof (cases "name_ok name m")
    case False
    with Cons.prems have "nz \<Longrightarrow> \<forall>s\<in>set (candidates ms name). \<exists>q. svalue s = Finite q"
      by (simp add: candidates_Cons)
    from Cons.IH [OF this] False show ?thesis
      by (simp add: metrics_loop_Cons del: metrics_loop.simps)
  next
    case True
    with Cons.prems have "nz \<Longrightarrow> \<forall>s\<in>set (samples m). \<exists>q. svalue s = Finite q"
      by (simp add: candidates_Cons)
    from samples_loop_total [OF this] obtain r1
      where r1: "samples_loop L nz (samples m) acc = Inr r1" by blast
    from True Cons.prems have "nz \<Longrightarrow> \<forall>s\<in>set (candidates ms name). \<exists>q. svalue s = Finite q"
      by (simp add: candidates_Cons)
    from Cons.IH [OF this] obtain res where "metrics_loop name L nz ms r1 = Inr res" by blast
    with r1 True show ?thesis by (simp add: metrics_loop_Cons del: metrics_loop.simps)
  qed
qed

lemma get_samples_Inr:
  "get_samples_from_metrics ms name L nz = Inr res \<Longrightarrow>
     res = filter (\<lambda>s. label_ok L s \<and> value_ok nz s) (candidates ms name)"
  using metrics_loop_Inr [of name L nz ms "[]" res] by (simp add: get_samples_from_metrics_def)

lemma get_samples_eq:
  assumes "nz \<Longrightarrow> \<forall>s\<in>set (candidates ms name). \<exists>q. svalue s = Finite q"
  shows "get_samples_from_metrics ms name L nz =
           Inr (filter (\<lambda>s. label_ok L s \<and> value_ok nz s) (candidates ms name))"
proof -
  from metrics_loop_total [OF assms] obtain res
    where r: "get_samples_from_metrics ms name L nz = Inr res"
    unfolding get_samples_from_metrics_def by blast
  from get_samples_Inr [OF r] r show ?thesis by simp
qed

lemma matches_label_ok:
  assumes "distinct (map fst (labels s))"
  shows "matches (labels s) L = label_ok L s"
proof (cases L)
  case None
  then show ?thesis by (simp add: matches_def label_ok_def)
next
  case (Some l)
  have "list_all (\<lambda>(k, v). map_of (labels s) k = Some v) l \<longleftrightarrow> set l \<subseteq> set (labels s)"
    using assms by (auto simp add: list_all_iff dest: map_of_SomeD)
  with Some show ?thesis by (simp add: matches_def label_ok_def)
qed

lemma matches_larger:
  assumes d: "distinct (map fst l)" and len: "length S < length l"
  shows "\<not> matches S (Some l)"
proof
  assume "matches S (Some l)"
  then have "set l \<subseteq> set S"
    by (auto simp add: matches_def list_all_iff dest: map_of_SomeD)
  then have "card (set l) \<le> card (set S)" by (simp add: card_mono)
  moreover from d have "distinct l" by (rule distinct_map [THEN iffD1, THEN conjunct1])
  then have "card (set l) = length l" by (rule distinct_card)
  moreover have "card (set S) \<le> length S" by (rule card_length)
  ultimately show False using len by simp
qed

lemma filter_flag_unset:
  "get_samples_from_metrics ms name L False = Inr (filter (label_ok L) (candidates ms name))"
  using get_samples_eq [of False ms name L] by (simp add: value_ok_def)

lemma filter_matches:
  assumes "\<forall>s\<in>set (candidates ms name). distinct (map fst (labels s))"
  shows "get_samples_from_metrics ms name L False =
           Inr (filter (\<lambda>s. matches (labels s) L) (candidates ms name))"
proof -
  have "filter (\<lambda>s. matches (labels s) L) (candidates ms name) =
          filter (label_ok L) (candidates ms name)"
    using assms by (intro filter_cong refl) (simp add: matches_label_ok)
  then show ?thesis by (simp add: filter_flag_unset)
qed

lemma label_ok_larger:
  assumes d: "distinct (map fst l)" and len: "length (labels s) < length l"
  shows "\<not> label_ok (Some l) s"
proof
  assume "label_ok (Some l) s"
  then have "set l \<subseteq> set (labels s)" by (simp add: label_ok_def)
  then have "card (set l) \<le> card (set (labels s))" by (simp add: card_mono)
  moreover from d have "distinct l" by (rule distinct_map [THEN iffD1, THEN conjunct1])
  then have "card (set l) = length l" by (rule distinct_card)
  moreover have "card (set (labels s)) \<le> length (labels s)" by (rule card_length)
  ultimately show False using len by simp
qed

lemma filter_larger:
  assumes "distinct (map fst l)"
    and "\<forall>s\<in>set (candidates ms name). length (labels s) < length l"
  shows "get_samples_from_metrics ms name (Some l) False = Inr []"
proof -
  have "filter (label_ok (Some l)) (candidates ms name) = []"
    using assms by (simp add: filter_empty_conv label_ok_larger)
  then show ?thesis by (simp add: filter_flag_unset)
qed

text \<open>
  Claim C5. For every required-label mapping \<open>L\<close> and every sample \<open>S\<close>, the filter
  retains \<open>S\<close> under \<open>L\<close> if and only if every (key, value) pair of \<open>L\<close> appears in the label
  mapping of \<open>S\<close>: a subset relation on the pairs. An absent or empty \<open>L\<close> retains every
  sample, and an \<open>L\<close> with more pairs than the label set of \<open>S\<close> retains none. The filter
  is taken with \<^verbatim>\<open>nonzero_only\<close> unset, so that the label constraint alone decides; the
  label mappings are dictionaries, so their keys are distinct.
\<close>

theorem label_match_subset:
  "((\<forall>s\<in>set (candidates ms name). distinct (map fst (labels s))) \<longrightarrow>
      get_samples_from_metrics ms name L False =
        Inr (filter (\<lambda>s. matches (labels s) L) (candidates ms name))) \<and>
   get_samples_from_metrics ms name None False = Inr (candidates ms name) \<and>
   get_samples_from_metrics ms name (Some []) False = Inr (candidates ms name) \<and>
   (distinct (map fst l) \<and> (\<forall>s\<in>set (candidates ms name). length (labels s) < length l) \<longrightarrow>
      get_samples_from_metrics ms name (Some l) False = Inr []) \<and>
   matches S None \<and> matches S (Some []) \<and>
   (distinct (map fst l) \<and> length S < length l \<longrightarrow> \<not> matches S (Some l))"
proof (intro conjI impI)
  show "get_samples_from_metrics ms name L False =
          Inr (filter (\<lambda>s. matches (labels s) L) (candidates ms name))"
    if "\<forall>s\<in>set (candidates ms name). distinct (map fst (labels s))"
    using that by (rule filter_matches)
  show "get_samples_from_metrics ms name None False = Inr (candidates ms name)"
    by (simp add: filter_flag_unset label_ok_def)
  show "get_samples_from_metrics ms name (Some []) False = Inr (candidates ms name)"
    by (simp add: filter_flag_unset label_ok_def)
  show "get_samples_from_metrics ms name (Some l) False = Inr []"
    if "distinct (map fst l) \<and> (\<forall>s\<in>set (candidates ms name). length (labels s) < length l)"
    using that by (intro filter_larger) simp_all
  show "matches S None" and "matches S (Some [])" by (simp_all add: matches_def)
  show "\<not> matches S (Some l)" if "distinct (map fst l) \<and> length S < length l"
    using that by (intro matches_larger) simp_all
qed

theorem label_match_subset_witness:
  "candidates example_metrics (Some ''dp_status'') = [dp1, dp2] \<and>
   distinct (map fst (labels dp1)) \<and> distinct (map fst (labels dp2)) \<and>
   get_samples_from_metrics example_metrics (Some ''dp_status'') (Some [(''dp_id'', ''1'')]) False
     = Inr [dp1] \<and>
   distinct (map fst [(''dp_id'', ''1''), (''port'', ''3''), (''vlan'', ''7'')]) \<and>
   length (labels dp1) < 3 \<and> length (labels dp2) < 3 \<and>
   get_samples_from_metrics example_metrics (Some ''dp_status'')
     (Some [(''dp_id'', ''1''), (''port'', ''3''), (''vlan'', ''7'')]) False = Inr [] \<and>
   length [(''dp_id'', ''1'')] < length [(''dp_id'', ''1''), (''port'', ''3''), (''vlan'', ''7'')] \<and>
   \<not> matches [(''dp_id'', ''1'')] (Some [(''dp_id'', ''1''), (''port'', ''3''), (''vlan'', ''7'')])"
  using
    label_match_subset [of example_metrics "Some ''dp_status''" "Some [(''dp_id'', ''1'')]"
      "[(''dp_id'', ''1''), (''port'', ''3''), (''vlan'', ''7'')]" "[(''dp_id'', ''1'')]"]
  by (simp add: example_metrics_def dp1_def dp2_def candidates_def name_ok_def matches_def)

lemma py_int_zero: "py_int (Finite q) = Inr 0 \<longleftrightarrow> - 1 < q \<and> q < 1"
proof (cases "0 \<le> q")
  case True
  then show ?thesis by (simp add: floor_eq_iff)
next
  case False
  then show ?thesis by (simp add: ceiling_eq_iff)
qed

text \<open>
  Claim C7. For every sample, with the nonzero-only flag set the sample is left out exactly
  when its value, truncated to an integer, is zero, and with the flag unset no sample is
  left out on account of its value. The code calls \<^verbatim>\<open>int(value)\<close> on every sample that passes
  the label test when the flag is set, and \<^verbatim>\<open>int\<close> raises on a float that is not finite:
  a family with a sample of value 1 and a sample of value NaN gives no list at all, so the
  sample of value 1, which does not truncate to zero, is not retained.
\<close>

theorem nonzero_only_raises_on_nan:
  "get_samples_from_metrics
     [\<lparr>mname = ''m'',
       samples = [\<lparr>sname = ''m'', labels = [], svalue = Finite 1\<rparr>,
                  \<lparr>sname = ''m'', labels = [], svalue = NaN\<rparr>]\<rparr>] None None True =
     Inl (Exn ValueError ''cannot convert float NaN to integer'')"
  by (simp add: get_samples_from_metrics_def)

text \<open>
  Claim C7, amended. With the flag unset no sample is left out on account of its value,
  whatever the value. With the flag set, whenever the filter returns a list, and it does
  when every sample of the families looked at has a finite value, a sample is left out
  exactly when its value, truncated to an integer, is zero, that is when the value lies
  strictly between -1 and 1. A sample of value 0 is left out with the flag and kept
  without it, and a sample of value 0.5 is left out with the flag.
\<close>

theorem nonzero_only_truncated:
  "get_samples_from_metrics ms name L False = Inr (filter (label_ok L) (candidates ms name)) \<and>
   (get_samples_from_metrics ms name L True = Inr res \<longrightarrow>
      res = filter (\<lambda>s. label_ok L s \<and> py_int (svalue s) \<noteq> Inr 0) (candidates ms name)) \<and>
   ((\<forall>s\<in>set (candidates ms name). \<exists>q. svalue s = Finite q) \<longrightarrow>
      get_samples_from_metrics ms name L True =
        Inr (filter (\<lambda>s. label_ok L s \<and> py_int (svalue s) \<noteq> Inr 0) (candidates ms name))) \<and>
   (py_int (Finite q) = Inr 0 \<longleftrightarrow> - 1 < q \<and> q < 1) \<and>
   get_samples_from_metrics
     [\<lparr>mname = n, samples = [\<lparr>sname = n, labels = ls, svalue = Finite 0\<rparr>]\<rparr>] None None True
     = Inr [] \<and>
   get_samples_from_metrics
     [\<lparr>mname = n, samples = [\<lparr>sname = n, labels = ls, svalue = Finite 0\<rparr>]\<rparr>] None None False
     = Inr [\<lparr>sname = n, labels = ls, svalue = Finite 0\<rparr>] \<and>
   get_samples_from_metrics
     [\<lparr>mname = n, samples = [\<lparr>sname = n, labels = ls, svalue = Finite (1 / 2)\<rparr>]\<rparr>] None None True
     = Inr []"
proof (intro conjI impI)
  show "get_samples_from_metrics ms name L False =
          Inr (filter (label_ok L) (candidates ms name))"
    by (rule filter_flag_unset)
  show "res = filter (\<lambda>s. label_ok L s \<and> py_int (svalue s) \<noteq> Inr 0) (candidates ms name)"
    if "get_samples_from_metrics ms name L True = Inr res"
    using get_samples_Inr [OF that] by (simp add: value_ok_def)
  show "get_samples_from_metrics ms name L True =
          Inr (filter (\<lambda>s. label_ok L s \<and> py_int (svalue s) \<noteq> Inr 0) (candidates ms name))"
    if "\<forall>s\<in>set (candidates ms name). \<exists>q. svalue s = Finite q"
    using get_samples_eq [of True ms name L] that by (simp add: value_ok_def)
  show "py_int (Finite q) = Inr 0 \<longleftrightarrow> - 1 < q \<and> q < 1"
    by (rule py_int_zero)
  show "get_samples_from_metrics
          [\<lparr>mname = n, samples = [\<lparr>sname = n, labels = ls, svalue = Finite 0\<rparr>]\<rparr>] None None True
          = Inr []"
    by (simp add: get_samples_from_metrics_def)
  show "get_samples_from_metrics
          [\<lparr>mname = n, samples = [\<lparr>sname = n, labels = ls, svalue = Finite 0\<rparr>]\<rparr>] None None False
          = Inr [\<lparr>sname = n, labels = ls, svalue = Finite 0\<rparr>]"
    by (simp add: get_samples_from_metrics_def)
  show "get_samples_from_metrics
          [\<lparr>mname = n, samples = [\<lparr>sname = n, labels = ls, svalue = Finite (1 / 2)\<rparr>]\<rparr>]
          None None True = Inr []"
    by (simp add: get_samples_from_metrics_def floor_eq_iff)
qed

theorem nonzero_only_truncated_witness:
  "candidates example_metrics (Some ''dp_status'') = [dp1, dp2] \<and>
   svalue dp1 = Finite 1 \<and> svalue dp2 = Finite 0 \<and>
   get_samples_from_metrics example_metrics (Some ''dp_status'') None True = Inr [dp1] \<and>
   get_samples_from_metrics example_metrics (Some ''dp_status'') None False = Inr [dp1, dp2]"
  using nonzero_only_truncated [of example_metrics "Some ''dp_status''" None "[dp1]"]
  by (simp add: example_metrics_def dp1_def dp2_def candidates_def name_ok_def label_ok_def)

subsection \<open>Endpoint fetcher: retries and streams\<close>








lemma try_fetch_refused:
  assumes "py_startswith endpoint ''http''" and "refused r"
  shows "try_fetch endpoint r = Inr None"
  using assms by (cases r) (simp_all add: try_fetch_def refused_def)

lemma attempts_all_refused:
  assumes h: "py_startswith endpoint ''http''" and r: "\<forall>i. refused (net endpoint i)"
  shows "attempts net endpoint k content err w =
           (Inr (content, err), w\<lparr>fetched := fetched w @ replicate k endpoint\<rparr>)"
proof (induction k arbitrary: w)
  case 0
  show ?case by simp
next
  case (Suc k)
  from r have "refused (net endpoint (length (fetched w)))" ..
  with h have "try_fetch endpoint (net endpoint (length (fetched w))) = Inr None"
    by (rule try_fetch_refused)
  then show ?case by (simp add: Suc.IH replicate_app_Cons_same)
qed

text \<open>
  Claim C10. For an HTTP endpoint whose every attempt gets a response with a status other
  than OK, and no exception, no attempt counts as a transport failure: all the attempts are
  made without a retry delay, no error is recorded or written, the scrape does not return
  "no data" on that account, and after the attempts the parser is called with an absent
  content for that endpoint; what the scrape does next is what the parser's answer makes
  it do.
\<close>

theorem refused_is_not_a_failure:
  "py_startswith endpoint ''http'' \<and> (\<forall>i. refused (net endpoint i)) \<longrightarrow>
     (\<forall>i. transport_failure endpoint (net endpoint i) = None) \<and>
     attempts net endpoint retries None None w =
       (Inr (None, None), w\<lparr>fetched := fetched w @ replicate retries endpoint\<rparr>) \<and>
     scrape_loop net parse retries err_output_file (endpoint # rest) metrics w =
       (let w2 = w\<lparr>fetched := fetched w @ replicate retries endpoint,
                   parsed := parsed w @ [None]\<rparr>
        in case parse None of
             Inl e \<Rightarrow>
               (if cls e = ValueError
                then (Inr None, w2\<lparr>written := written w2 @ [(err_output_file, msg e)]\<rparr>)
                else (Inl e, w2))
           | Inr endpoint_metrics \<Rightarrow>
               scrape_loop net parse retries err_output_file rest
                 (metrics @ endpoint_metrics) w2) \<and>
     (parse None = Inr endpoint_metrics \<longrightarrow>
        scrape_prometheus net parse [endpoint] (int retries) err_output_file start =
          (Inr (Some endpoint_metrics),
           \<lparr>fetched = replicate retries endpoint, sleeps = 0, written = [],
             parsed = [None]\<rparr>))"
proof (intro impI conjI allI)
  assume "py_startswith endpoint ''http'' \<and> (\<forall>i. refused (net endpoint i))"
  then have h: "py_startswith endpoint ''http''" and r: "\<forall>i. refused (net endpoint i)"
    by simp_all
  note a = attempts_all_refused [where net = net and endpoint = endpoint, OF h r]
  show "transport_failure endpoint (net endpoint i) = None" for i
    using try_fetch_refused [OF h r [rule_format, of i]] by (simp add: transport_failure_def)
  show "attempts net endpoint retries None None w =
          (Inr (None, None), w\<lparr>fetched := fetched w @ replicate retries endpoint\<rparr>)"
    by (rule a)
  show "scrape_loop net parse retries err_output_file (endpoint # rest) metrics w =
       (let w2 = w\<lparr>fetched := fetched w @ replicate retries endpoint,
                   parsed := parsed w @ [None]\<rparr>
        in case parse None of
             Inl e \<Rightarrow>
               (if cls e = ValueError
                then (Inr None, w2\<lparr>written := written w2 @ [(err_output_file, msg e)]\<rparr>)
                else (Inl e, w2))
           | Inr endpoint_metrics \<Rightarrow>
               scrape_loop net parse retries err_output_file rest
                 (metrics @ endpoint_metrics) w2)"
    by (simp add: a Let_def split: sum.splits)
  show "scrape_prometheus net parse [endpoint] (int retries) err_output_file start =
          (Inr (Some endpoint_metrics),
           \<lparr>fetched = replicate retries endpoint, sleeps = 0, written = [],
             parsed = [None]\<rparr>)"
    if "parse None = Inr endpoint_metrics"
    using that by (simp add: scrape_prometheus_def a start_def)
qed

lemma busy_net_refused: "refused (busy_net endpoint i)"
  by (simp add: refused_def busy_net_def)

theorem refused_is_not_a_failure_witness:
  "py_startswith ''http://a'' ''http'' \<and> (\<forall>i. refused (busy_net ''http://a'' i)) \<and>
   example_parser None = Inr [] \<and>
   scrape_prometheus busy_net example_parser [''http://a''] 3 Stdout start =
     (Inr (Some []),
      \<lparr>fetched = [''http://a'', ''http://a'', ''http://a''], sleeps = 0, written = [],
        parsed = [None]\<rparr>)"
proof -
  have rep: "replicate 3 ''http://a'' = [''http://a'', ''http://a'', ''http://a'']"
    by (simp add: numeral_3_eq_3)
  have three: "int 3 = 3" by simp
  show ?thesis
    using refused_is_not_a_failure [of "''http://a''" busy_net 3 start example_parser Stdout
        "[]" "[]" "[]"]
    unfolding rep three
    by (simp add: busy_net_refused py_startswith_def example_parser_def)
qed

text \<open>
  Claim C1. If some attempt for an endpoint succeeds, retrying stops, the text is kept for
  parsing and the fetch does not abort for that endpoint, also when earlier attempts for
  the same endpoint failed with a transport error. The code leaves \<^verbatim>\<open>err\<close> set after a
  failed attempt: on a network whose first reply is a refused connection and whose second
  reply is the text, the scrape stops retrying after the second attempt, and then writes
  the first attempt's error, returns "no data" and never calls the parser.
\<close>

theorem success_after_failure_aborts:
  "try_fetch ''http://a'' (flaky_net ''http://a'' 1) = Inr (Some ''dp_status 1'') \<and>
   scrape_prometheus flaky_net example_parser [''http://a''] default_retries
       default_err_output_file start =
     (Inr None,
      \<lparr>fetched = [''http://a'', ''http://a''], sleeps = 1,
        written = [(Stdout, ''Connection refused'')], parsed = []\<rparr>)"
  by (simp add: scrape_prometheus_def default_retries_def default_err_output_file_def
      start_def numeral_3_eq_3 flaky_net_def try_fetch_def py_startswith_def caught_def)

lemma attempts_written:
  "attempts net endpoint k content err w = (r, w') \<Longrightarrow>
     written w' = written w \<and> parsed w' = parsed w"
proof (induction k arbitrary: err w)
  case 0
  then show ?case by auto
next
  case (Suc k)
  show ?case
  proof (cases "try_fetch endpoint (net endpoint (length (fetched w)))")
    case (Inl e)
    show ?thesis
    proof (cases "caught e")
      case True
      with Inl Suc.prems have "attempts net endpoint k content (Some e)
          (w\<lparr>fetched := fetched w @ [endpoint], sleeps := Suc (sleeps w)\<rparr>) = (r, w')"
        by simp
      from Suc.IH [OF this] show ?thesis by simp
    next
      case False
      with Inl Suc.prems show ?thesis by auto
    qed
  next
    case (Inr c)
    show ?thesis
    proof (cases c)
      case None
      with Inr Suc.prems have "attempts net endpoint k content err
          (w\<lparr>fetched := fetched w @ [endpoint]\<rparr>) = (r, w')"
        by simp
      from Suc.IH [OF this] show ?thesis by simp
    next
      case (Some t)
      with Inr Suc.prems show ?thesis by auto
    qed
  qed
qed

lemma scrape_loop_written:
  "scrape_loop net parse retries f endpoints metrics w = (r, w') \<Longrightarrow>
     (r = Inr None \<longrightarrow> (\<exists>m. written w' = written w @ [(f, m)])) \<and>
     (r \<noteq> Inr None \<longrightarrow> written w' = written w)"
proof (induction endpoints arbitrary: metrics w)
  case Nil
  then show ?case by auto
next
  case (Cons endpoint rest)
  obtain ra w1 where a: "attempts net endpoint retries None None w = (ra, w1)"
    by (cases "attempts net endpoint retries None None w")
  from attempts_written [OF a] have w1: "written w1 = written w" by simp
  show ?case
  proof (cases ra)
    case (Inl e)
    with a Cons.prems w1 show ?thesis by auto
  next
    case (Inr p)
    obtain content err where p: "p = (content, err)" by (cases p)
    show ?thesis
    proof (cases err)
      case (Some e)
      with a Inr p Cons.prems w1 show ?thesis by auto
    next
      case None
      let ?w2 = "w1\<lparr>parsed := parsed w1 @ [content]\<rparr>"
      show ?thesis
      proof (cases "parse content")
        case (Inl e)
        with a Inr p None Cons.prems w1 show ?thesis by (auto simp add: Let_def split: if_splits)
      next
        case ok: (Inr endpoint_metrics)
        with a Inr p None Cons.prems
        have "scrape_loop net parse retries f rest (metrics @ endpoint_metrics) ?w2 = (r, w')"
          by simp
        from Cons.IH [OF this] w1 show ?thesis by simp
      qed
    qed
  qed
qed

lemma parse_args_writes:
  "parse_args usage argparse_result = (Returns q, out) \<Longrightarrow> out = []"
  by (auto simp add: parse_args_def split: outcome.splits sum.splits if_splits)

text \<open>
  Claim C9. Fetch and parse diagnostics are written to an error stream of their own,
  distinct from the standard output that carries the report. The scrape writes its
  diagnostics to the stream it is given as \<^verbatim>\<open>err_output_file\<close>, whose default is
  \<^verbatim>\<open>sys.stdout\<close>, and \<^verbatim>\<open>main\<close> leaves it at the default: a refused connection ends with its
  message on the standard output.
\<close>

theorem diagnostics_on_stdout:
  "main ''usage: fctl'' (Returns args_dp_status) down_net example_parser whole_str =
     (Exits 1,
      \<lparr>fetched = [''http://a'', ''http://a'', ''http://a''], sleeps = 3,
        written = [(Stdout, ''Connection refused'')], parsed = []\<rparr>)"
proof -
  have p: "parse_args ''usage: fctl'' (Returns args_dp_status) =
             (Returns ([''http://a''], [''dp_status''], None, False, None), [])"
    by (simp add: parse_args_def parse_args_body_def args_dp_status_def args_plain_def
        truthy_def)
  have s: "scrape_prometheus down_net example_parser [''http://a''] default_retries
             default_err_output_file (start\<lparr>written := []\<rparr>) =
             (Inr None,
              \<lparr>fetched = [''http://a'', ''http://a'', ''http://a''], sleeps = 3,
                written = [(Stdout, ''Connection refused'')], parsed = []\<rparr>)"
    by (simp add: scrape_prometheus_def default_retries_def default_err_output_file_def
        start_def numeral_3_eq_3 down_net_def try_fetch_def py_startswith_def caught_def)
  show ?thesis by (simp add: main_def p s)
qed

text \<open>
  Claim C9, amended. The scrape writes only to the stream it is given, one diagnostic and
  only when it returns "no data". \<^verbatim>\<open>main\<close> gives it the standard output, so the diagnostic
  shares the stream of the report; the two still never meet there, because a run of
  \<^verbatim>\<open>main\<close> whose arguments parse writes either one diagnostic, and exits with status 1, or
  the report, or nothing when an exception leaves it.
\<close>

theorem diagnostics_share_stdout:
  "(scrape_prometheus net parse endpoints retries f w = (r, w') \<longrightarrow>
      (r = Inr None \<longrightarrow> (\<exists>m. written w' = written w @ [(f, m)])) \<and>
      (r \<noteq> Inr None \<longrightarrow> written w' = written w)) \<and>
   (parse_args usage argparse_result = (Returns q, out) \<longrightarrow>
      (case main usage argparse_result net parse fstr of
         (Exits n, w) \<Rightarrow> n = 1 \<and> (\<exists>m. written w = [(Stdout, m)])
       | (Raises e, w) \<Rightarrow> written w = []
       | (Returns u, w) \<Rightarrow> (\<exists>report. written w = [(Stdout, print_text report)])))"
proof (intro conjI impI)
  assume "scrape_prometheus net parse endpoints retries f w = (r, w')"
  then have "scrape_loop net parse (nat retries) f endpoints [] w = (r, w')"
    by (simp add: scrape_prometheus_def)
  from scrape_loop_written [OF this]
  show "r = Inr None \<Longrightarrow> \<exists>m. written w' = written w @ [(f, m)]"
    and "r \<noteq> Inr None \<Longrightarrow> written w' = written w"
    by simp_all
next
  assume pa: "parse_args usage argparse_result = (Returns q, out)"
  then have out: "out = []" by (rule parse_args_writes)
  obtain endpoints report_metrics label_matches nonzero_only display_labels
    where q: "q = (endpoints, report_metrics, label_matches, nonzero_only, display_labels)"
    by (cases q)
  obtain r w1 where s: "scrape_prometheus net parse endpoints default_retries
      default_err_output_file (start\<lparr>written := []\<rparr>) = (r, w1)"
    by (cases "scrape_prometheus net parse endpoints default_retries
      default_err_output_file (start\<lparr>written := []\<rparr>)")
  then have "scrape_loop net parse (nat default_retries) Stdout endpoints []
      (start\<lparr>written := []\<rparr>) = (r, w1)"
    by (simp add: scrape_prometheus_def default_err_output_file_def)
  from scrape_loop_written [OF this]
  have none: "r = Inr None \<Longrightarrow> \<exists>m. written w1 = [(Stdout, m)]"
    and other: "r \<noteq> Inr None \<Longrightarrow> written w1 = []"
    by simp_all
  show "case main usage argparse_result net parse fstr of
         (Exits n, w) \<Rightarrow> n = 1 \<and> (\<exists>m. written w = [(Stdout, m)])
       | (Raises e, w) \<Rightarrow> written w = []
       | (Returns u, w) \<Rightarrow> (\<exists>report. written w = [(Stdout, print_text report)])"
  proof (cases r)
    case (Inl e)
    with pa out q s other show ?thesis by (simp add: main_def)
  next
    case (Inr mo)
    show ?thesis
    proof (cases mo)
      case None
      with Inr pa out q s none show ?thesis by (simp add: main_def)
    next
      case (Some metrics)
      with Inr other have w1: "written w1 = []" by simp
      show ?thesis
      proof (cases "report_label_match_metrics fstr (Some report_metrics) metrics
          display_labels nonzero_only [CHR 0x09] label_matches")
        case (Inl e)
        with Some Inr pa out q s w1 show ?thesis by (simp add: main_def)
      next
        case ok: (Inr report)
        with Some Inr pa out q s w1 show ?thesis by (auto simp add: main_def)
      qed
    qed
  qed
qed

theorem diagnostics_share_stdout_witness:
  "parse_args ''usage: fctl'' (Returns args_dp_status) =
     (Returns ([''http://a''], [''dp_status''], None, False, None), []) \<and>
   scrape_prometheus down_net example_parser [''http://a''] 3 Stderr start =
     (Inr None,
      \<lparr>fetched = [''http://a'', ''http://a'', ''http://a''], sleeps = 3,
        written = [(Stderr, ''Connection refused'')], parsed = []\<rparr>) \<and>
   (\<exists>w m. main ''usage: fctl'' (Returns args_dp_status) down_net example_parser whole_str =
            (Exits 1, w) \<and> written w = [(Stdout, m)])"
proof -
  have p: "parse_args ''usage: fctl'' (Returns args_dp_status) =
             (Returns ([''http://a''], [''dp_status''], None, False, None), [])"
    by (simp add: parse_args_def parse_args_body_def args_dp_status_def args_plain_def
        truthy_def)
  have s: "scrape_prometheus down_net example_parser [''http://a''] 3 Stderr start =
     (Inr None,
      \<lparr>fetched = [''http://a'', ''http://a'', ''http://a''], sleeps = 3,
        written = [(Stderr, ''Connection refused'')], parsed = []\<rparr>)"
    by (simp add: scrape_prometheus_def start_def numeral_3_eq_3 down_net_def try_fetch_def
        py_startswith_def caught_def)
  have m: "fst (main ''usage: fctl'' (Returns args_dp_status) down_net example_parser whole_str)
             = Exits 1"
    by (simp add: main_def p scrape_prometheus_def default_retries_def
        default_err_output_file_def start_def numeral_3_eq_3 down_net_def try_fetch_def
        py_startswith_def caught_def)
  from diagnostics_share_stdout [of down_net example_parser "[''http://a'']" 3 Stderr start
      "Inr None" "\<lparr>fetched = [''http://a'', ''http://a'', ''http://a''], sleeps = 3,
        written = [(Stderr, ''Connection refused'')], parsed = []\<rparr>"
      "''usage: fctl''" "Returns args_dp_status"
      "([''http://a''], [''dp_status''], None, False, None)" "[]" whole_str] p s m
  show ?thesis
    by (cases "main ''usage: fctl'' (Returns args_dp_status) down_net example_parser whole_str")
      (auto split: outcome.splits)
qed

subsection \<open>Report formatter and command line\<close>

lemma sort_dp1: "sort [(''port'', ''3''), (''dp_id'', ''1'')] = [(''dp_id'', ''1''), (''port'', ''3'')]"
  by code_simp

lemma sort_dp2: "sort [(''port'', ''3''), (''dp_id'', ''2'')] = [(''dp_id'', ''2''), (''port'', ''3'')]"
  by code_simp

lemma sort_mac1: "sort [(''dp_id'', ''1'')] = [(''dp_id'', ''1'')]"
  by simp

lemma str_pairs_dp1:
  "str_pairs [(''dp_id'', ''1''), (''port'', ''3'')] = ''[('dp_id', '1'), ('port', '3')]''"
  by code_simp

lemma str_pairs_dp2:
  "str_pairs [(''dp_id'', ''2''), (''port'', ''3'')] = ''[('dp_id', '2'), ('port', '3')]''"
  by code_simp

lemma str_pairs_mac1: "str_pairs [(''dp_id'', ''1'')] = ''[('dp_id', '1')]''"
  by code_simp

lemma whole_str_examples: "whole_str (Finite 1) = ''1.0''" "whole_str (Finite 0) = ''0.0''"
  by (simp_all add: whole_str_def dec_digits.simps)

lemma decode_mac1:
  "decode_value (Some ''learned_macs'') (Finite 255) = Inr (Text ''00:00:00:00:00:ff'')"
proof -
  have "decode_value (Some ''learned_macs'') (Finite 255) =
          Inr (Text (spec_mac (nat \<lfloor>255 :: rat\<rfloor>)))"
    by (rule decode_mac) simp_all
  then show ?thesis by (simp add: spec_mac_def spec_octet_def hex_digit_def)
qed

lemma str_list_empty: "str_list [] = ''[]''"
  by (simp add: str_list_def)

lemma example_dp_status:
  "get_samples_from_metrics example_metrics (Some ''dp_status'') None False = Inr [dp1, dp2]"
  by (simp add: get_samples_from_metrics_def example_metrics_def)

lemma example_learned_macs:
  "get_samples_from_metrics example_metrics (Some ''learned_macs'') None False = Inr [mac1]"
  by (simp add: get_samples_from_metrics_def example_metrics_def)

lemma example_absent:
  "get_samples_from_metrics example_metrics (Some ''absent'') None False = Inr []"
  by (simp add: get_samples_from_metrics_def example_metrics_def)

lemma example_all:
  "get_samples_from_metrics example_metrics None None False = Inr [dp1, dp2, mac1]"
  by (simp add: get_samples_from_metrics_def example_metrics_def)

lemma report_dp_status:
  "report_samples whole_str (Some ''dp_status'') None [CHR 0x09] [dp1, dp2] (PList []) =
     Inr (PList
       [py_join [CHR 0x09] [''dp_status'', ''[('dp_id', '1'), ('port', '3')]'', ''1.0''],
        py_join [CHR 0x09] [''dp_status'', ''[('dp_id', '2'), ('port', '3')]'', ''0.0'']])"
  by (simp add: dp1_def dp2_def decode_value_def sort_dp1 sort_dp2 str_pairs_dp1 str_pairs_dp2
      whole_str_examples del: py_join.simps sort_key_simps)

lemma report_mac1:
  "report_samples whole_str (Some ''learned_macs'') None [CHR 0x09] [mac1] (PList []) =
     Inr (PList [py_join [CHR 0x09] [''learned_macs'', ''[('dp_id', '1')]'', ''00:00:00:00:00:ff'']])"
  by (simp add: mac1_def decode_mac1 str_pairs_mac1 del: py_join.simps)

lemma report_str_append:
  "report_samples fstr (Some ''learned_macs'') None delim [mac1] (PStr s) =
     Inl (Exn AttributeError (CHR 0x27 # ''str' object has no attribute 'append'' @ [CHR 0x27]))"
  by (simp add: mac1_def decode_mac1)

text \<open>
  Claim C2. For every list of requested metric names the formatter gives one line per
  retained sample (name, delimiter, the sorted label list as a string, delimiter, decoded
  value), all the lines of all the names joined by newlines into one returned text, a name
  without samples adding nothing. The code joins the lines at the end of the body of the
  loop over the names, so after the first name \<^verbatim>\<open>report_output\<close> is a string. With one
  name the text is as claimed. With a second name that has a sample, \<^verbatim>\<open>append\<close> on the
  string raises; with a second name that has none, the text of the first name is joined
  once more, character by character.
\<close>

theorem report_joins_inside_loop:
  "report_label_match_metrics whole_str (Some [''dp_status'']) example_metrics None False
       [CHR 0x09] None =
     Inr (PStr (py_join [CHR 0x0A]
       [py_join [CHR 0x09] [''dp_status'', ''[('dp_id', '1'), ('port', '3')]'', ''1.0''],
        py_join [CHR 0x09] [''dp_status'', ''[('dp_id', '2'), ('port', '3')]'', ''0.0'']])) \<and>
   report_label_match_metrics whole_str (Some [''dp_status'', ''learned_macs'']) example_metrics
       None False [CHR 0x09] None =
     Inl (Exn AttributeError (CHR 0x27 # ''str' object has no attribute 'append'' @ [CHR 0x27])) \<and>
   report_label_match_metrics whole_str (Some [''learned_macs'', ''absent'']) example_metrics
       None False [CHR 0x09] None =
     Inr (PStr (py_join [CHR 0x0A] (map (\<lambda>c. [c])
       (py_join [CHR 0x09] [''learned_macs'', ''[('dp_id', '1')]'', ''00:00:00:00:00:ff'']))))"
  by (simp add: report_label_match_metrics_def example_dp_status example_learned_macs
      example_absent report_dp_status report_mac1 report_str_append
      del: py_join.simps(3) report_samples.simps(2))

text \<open>
  Claim C3. When \<^verbatim>\<open>-m\<close> is absent the report covers every family of the scrape: it has a
  line for each sample that passes the filters. The code's \<^verbatim>\<open>parse_args\<close> starts
  \<^verbatim>\<open>report_metrics\<close> as the empty list, not as \<^verbatim>\<open>None\<close>, so the formatter's loop over the
  names never runs: the report is the empty list, whatever was scraped, and \<^verbatim>\<open>main\<close>
  prints \<^verbatim>\<open>[]\<close>. (The formatter's own way to all families, a \<^verbatim>\<open>None\<close> in place of the list,
  raises on the first sample, since \<^verbatim>\<open>join\<close> refuses the name \<^verbatim>\<open>None\<close>.)
\<close>

theorem no_metrics_flag_empty_report:
  "report_label_match_metrics fstr (Some []) metrics display_labels nonzero_only delim
       label_matches = Inr (PList []) \<and>
   parse_args usage (Returns args_plain) =
     (Returns ([''http://a''], [], None, False, None), []) \<and>
   get_samples_from_metrics example_metrics None None False = Inr [dp1, dp2, mac1] \<and>
   main usage (Returns args_plain) up_net example_parser fstr =
     (Returns (),
      \<lparr>fetched = [''http://a''], sleeps = 0, written = [(Stdout, ''[]'' @ [CHR 0x0A])],
        parsed = [Some ''dp_status 1'']\<rparr>) \<and>
   report_label_match_metrics fstr None example_metrics None False [CHR 0x09] None =
     Inl (Exn TypeError ''sequence item 0: expected str instance, NoneType found'')"
proof (intro conjI)
  show e: "report_label_match_metrics fstr (Some []) metrics display_labels nonzero_only delim
       label_matches = Inr (PList [])" for metrics display_labels nonzero_only delim label_matches
    by (simp add: report_label_match_metrics_def)
  show p: "parse_args usage (Returns args_plain) =
     (Returns ([''http://a''], [], None, False, None), [])"
    by (simp add: parse_args_def parse_args_body_def args_plain_def truthy_def)
  show "get_samples_from_metrics example_metrics None None False = Inr [dp1, dp2, mac1]"
    by (rule example_all)
  have s: "scrape_prometheus up_net example_parser [''http://a''] default_retries
             default_err_output_file (start\<lparr>written := []\<rparr>) =
             (Inr (Some example_metrics),
              \<lparr>fetched = [''http://a''], sleeps = 0, written = [],
                parsed = [Some ''dp_status 1'']\<rparr>)"
    by (simp add: scrape_prometheus_def default_retries_def default_err_output_file_def
        start_def numeral_3_eq_3 up_net_def try_fetch_def py_startswith_def example_parser_def)
  show "main usage (Returns args_plain) up_net example_parser fstr =
     (Returns (),
      \<lparr>fetched = [''http://a''], sleeps = 0, written = [(Stdout, ''[]'' @ [CHR 0x0A])],
        parsed = [Some ''dp_status 1'']\<rparr>)"
    by (simp add: main_def p s e str_list_empty)
  show "report_label_match_metrics fstr None example_metrics None False [CHR 0x09] None =
     Inl (Exn TypeError ''sequence item 0: expected str instance, NoneType found'')"
    by (simp add: report_label_match_metrics_def example_all dp1_def decode_value_def)
qed

lemma parse_args_body_raises:
  "parse_args_body args = Inl e \<Longrightarrow> \<not> usage_exit e"
proof -
  have l: "labels_loop items lm = Inl x \<Longrightarrow> cls x = ValueError" for items lm x
    by (induction items arbitrary: lm) (auto split: list.splits)
  assume "parse_args_body args = Inl e"
  then have "cls e = ValueError"
    by (auto simp add: parse_args_body_def Let_def map_sum_def dest: l
        split: if_splits sum.splits)
  then show ?thesis by (simp add: usage_exit_def)
qed

text \<open>
  Claim C4. On malformed label syntax (an item of \<^verbatim>\<open>--labels\<close> without its colon)
  \<^verbatim>\<open>parse_args\<close> prints the usage text to standard error, the process ends with a status
  other than zero, and nothing of the pipeline runs. In the code the item without a colon
  makes the unpacking of \<^verbatim>\<open>label_value.split(':')\<close> raise a \<^verbatim>\<open>ValueError\<close>, which
  \<^verbatim>\<open>except (KeyError, IndexError)\<close> does not catch: the usage text is not printed,
  \<^verbatim>\<open>sys.exit(-1)\<close> is not reached, and the exception leaves \<^verbatim>\<open>parse_args\<close> and \<^verbatim>\<open>main\<close>
  before anything is fetched.
\<close>

theorem bad_label_raises_value_error:
  "parse_args usage (Returns args_bad_label) =
     (Raises (Exn ValueError ''not enough values to unpack (expected 2, got 1)''), []) \<and>
   main usage (Returns args_bad_label) net parse fstr =
     (Raises (Exn ValueError ''not enough values to unpack (expected 2, got 1)''), start) \<and>
   parse_args usage (Raises (Exn KeyError ''k'')) = (Exits (- 1), [(Stdout, usage)])"
proof (intro conjI)
  show p: "parse_args usage (Returns args_bad_label) =
     (Raises (Exn ValueError ''not enough values to unpack (expected 2, got 1)''), [])"
    by (simp add: parse_args_def parse_args_body_def args_bad_label_def args_plain_def
        truthy_def usage_exit_def)
  show "main usage (Returns args_bad_label) net parse fstr =
     (Raises (Exn ValueError ''not enough values to unpack (expected 2, got 1)''), start)"
    by (simp add: main_def p start_def)
  show "parse_args usage (Raises (Exn KeyError ''k'')) = (Exits (- 1), [(Stdout, usage)])"
    by (simp add: parse_args_def usage_exit_def)
qed

end
